theory Spec2Isabelle
  imports Main "HOL-Library.AList"
begin

section \<open>Rosella: the IRC relay's shared state and its handlers\<close>

text \<open>
  The repository holds two generations of the server. \<^verbatim>\<open>rosella.go\<close> is the
  complete early program: the structs, the dispatcher \<^verbatim>\<open>handleEvent\<close>, the
  Server methods \<^verbatim>\<open>joinChannel\<close> and \<^verbatim>\<open>partChannel\<close>, and the Client methods
  \<^verbatim>\<open>reply\<close>, \<^verbatim>\<open>setNick\<close> and \<^verbatim>\<open>disconnect\<close>. \<^verbatim>\<open>client.go\<close> is the later
  Client: \<^verbatim>\<open>setNick\<close>, \<^verbatim>\<open>joinChannel\<close>, \<^verbatim>\<open>partChannel\<close>, \<^verbatim>\<open>reply\<close> and
  \<^verbatim>\<open>disconnect\<close> over case-folded keys and per-member modes. Both are embedded.
  The functions of \<^verbatim>\<open>client.go\<close> keep their names; a function of \<^verbatim>\<open>rosella.go\<close>
  whose name \<^verbatim>\<open>client.go\<close> uses again carries the prefix \<open>rosella_\<close>.

  Pointers are references into an explicit store: a \<open>client_ref\<close> stands for a
  \<^verbatim>\<open>*Client\<close>, a \<open>channel_ref\<close> for a \<^verbatim>\<open>*Channel\<close>. A Go map is an association
  list; \<^verbatim>\<open>range\<close> visits it in list order, which stands for the unspecified order of
  Go. Strings are byte lists, and the library functions are modelled on ASCII text.
\<close>

subsection \<open>Library functions of Go\<close>

datatype error = IndexOutOfRange | NilDereference

definition bindE :: "error + 'a \<Rightarrow> ('a \<Rightarrow> error + 'b) \<Rightarrow> error + 'b" where
  "bindE m f = (case m of Inl e \<Rightarrow> Inl e | Inr x \<Rightarrow> f x)"

definition lowerLetters :: string where
  "lowerLetters = ''abcdefghijklmnopqrstuvwxyz''"

definition upperLetters :: string where
  "upperLetters = ''ABCDEFGHIJKLMNOPQRSTUVWXYZ''"

definition decimalDigits :: string where
  "decimalDigits = ''0123456789''"

definition ToLowerChar :: "char \<Rightarrow> char" where
  "ToLowerChar c = (case map_of (zip upperLetters lowerLetters) c of Some l \<Rightarrow> l | None \<Rightarrow> c)"

definition ToUpperChar :: "char \<Rightarrow> char" where
  "ToUpperChar c = (case map_of (zip lowerLetters upperLetters) c of Some u \<Rightarrow> u | None \<Rightarrow> c)"

definition ToLower :: "string \<Rightarrow> string" where
  "ToLower s = map ToLowerChar s"

definition ToUpper :: "string \<Rightarrow> string" where
  "ToUpper s = map ToUpperChar s"

definition isSpace :: "char \<Rightarrow> bool" where
  "isSpace c = (c \<in> set [CHR '' '', CHR 0x09, CHR 0x0A, CHR 0x0B, CHR 0x0C, CHR 0x0D])"

fun FieldsFrom :: "string \<Rightarrow> string \<Rightarrow> string list" where
  "FieldsFrom [] cur = (if cur = [] then [] else [cur])"
| "FieldsFrom (c # cs) cur =
     (if isSpace c then (if cur = [] then FieldsFrom cs [] else cur # FieldsFrom cs [])
      else FieldsFrom cs (cur @ [c]))"

definition Fields :: "string \<Rightarrow> string list" where
  "Fields s = FieldsFrom s []"

fun SplitFrom :: "char \<Rightarrow> string \<Rightarrow> string \<Rightarrow> string list" where
  "SplitFrom sep [] cur = [cur]"
| "SplitFrom sep (c # cs) cur =
     (if c = sep then cur # SplitFrom sep cs [] else SplitFrom sep cs (cur @ [c]))"

definition Split :: "string \<Rightarrow> char \<Rightarrow> string list" where
  "Split s sep = SplitFrom sep s []"

fun Join :: "string list \<Rightarrow> string \<Rightarrow> string" where
  "Join [] sep = []"
| "Join [x] sep = x"
| "Join (x # y # ys) sep = x @ sep @ Join (y # ys) sep"

definition HasPrefix :: "string \<Rightarrow> string \<Rightarrow> bool" where
  "HasPrefix s p = (take (length p) s = p)"

definition TrimPrefix :: "string \<Rightarrow> string \<Rightarrow> string" where
  "TrimPrefix s p = (if HasPrefix s p then drop (length p) s else s)"

fun Itoa :: "nat \<Rightarrow> string" where
  "Itoa n = (if n < 10 then [decimalDigits ! n] else Itoa (n div 10) @ [decimalDigits ! (n mod 10)])"

definition nickStart :: "char \<Rightarrow> bool" where
  "nickStart c = (c \<in> set (lowerLetters @ upperLetters @ ''[]_^{|}''))"

definition nickChar :: "char \<Rightarrow> bool" where
  "nickChar c = (c \<in> set (lowerLetters @ upperLetters @ decimalDigits @ ''[]_^{|}''))"

definition nickRegexp :: "string \<Rightarrow> bool" where
  "nickRegexp s = (case s of [] \<Rightarrow> False | c # cs \<Rightarrow> nickStart c \<and> list_all nickChar cs)"

definition channelChar :: "char \<Rightarrow> bool" where
  "channelChar c = (c \<in> set (lowerLetters @ decimalDigits @ ''_-''))"

definition channelRegexp :: "string \<Rightarrow> bool" where
  "channelRegexp s =
     (case s of [] \<Rightarrow> False | c # cs \<Rightarrow> c = CHR ''#'' \<and> cs \<noteq> [] \<and> list_all channelChar cs)"

subsection \<open>The structs and the store\<close>

type_synonym client_ref = nat
type_synonym channel_ref = nat

datatype signalCode = signalStop

datatype replyCode =
    rplWelcome | rplJoin | rplPart | rplTopic | rplNoTopic | rplNames | rplEndOfNames
  | rplNickChange | rplKill | rplMsg | rplList | rplListEnd | rplOper | rplChannelModeIs
  | rplKick | rplInfo | rplVersion | rplMOTDStart | rplMOTD | rplEndOfMOTD | rplPong
  | errMoreArgs | errNoNick | errInvalidNick | errNickInUse | errAlreadyReg | errNoSuchNick
  | errUnknownCommand | errNotReg | errPassword | errNoPriv | errCannotSend

text \<open>
  The records carry the fields of both files. \<^verbatim>\<open>rosella.go\<close> declares \<^verbatim>\<open>Server\<close>,
  \<^verbatim>\<open>Client\<close> and \<^verbatim>\<open>Channel\<close>; \<^verbatim>\<open>client.go\<close> also uses \<^verbatim>\<open>Client.key\<close>,
  \<^verbatim>\<open>Channel.modeMap\<close> and \<^verbatim>\<open>Channel.mode\<close>, whose declarations are in neither file
  and are taken from section 3 of the specification. A line handed to
  \<^verbatim>\<open>outputChan\<close> is kept with the reply code that produced it. The \<^verbatim>\<open>Server\<close> record
  also holds the store and the next free channel reference.
\<close>

record ClientMode =
  operator :: bool
  voice :: bool

record ChannelMode =
  secret :: bool
  topicLocked :: bool
  noExternal :: bool

record Client =
  nick :: string
  key :: string
  registered :: bool
  connected :: bool
  c_channelMap :: "(string \<times> channel_ref) list"
  outputChan :: "(replyCode \<times> string) list"
  signalChan :: "signalCode list"

record Channel =
  ch_name :: string
  topic :: string
  ch_clientMap :: "(string \<times> client_ref) list"
  modeMap :: "(string \<times> ClientMode option) list"
  mode :: ChannelMode

record Server =
  name :: string
  clientMap :: "(string \<times> client_ref) list"
  channelMap :: "(string \<times> channel_ref) list"
  clients :: "client_ref \<Rightarrow> Client"
  channels :: "channel_ref \<Rightarrow> Channel"
  nextChannel :: channel_ref

definition send :: "client_ref \<Rightarrow> replyCode \<times> string \<Rightarrow> Server \<Rightarrow> Server" where
  "send c l s = s\<lparr>clients := (clients s)(c := (clients s c)\<lparr>outputChan := outputChan (clients s c) @ [l]\<rparr>)\<rparr>"

definition setChannel :: "channel_ref \<Rightarrow> Channel \<Rightarrow> Server \<Rightarrow> Server" where
  "setChannel ch v s = s\<lparr>channels := (channels s)(ch := v)\<rparr>"

definition setClient :: "client_ref \<Rightarrow> Client \<Rightarrow> Server \<Rightarrow> Server" where
  "setClient c v s = s\<lparr>clients := (clients s)(c := v)\<rparr>"

subsection \<open>client.go\<close>

text \<open>
  Modelled from the spec: \<^verbatim>\<open>ClientMode.Prefix\<close>, which is called by \<^verbatim>\<open>joinChannel\<close>
  and defined in neither file. Section 3: \<^verbatim>\<open>@\<close> for operator, \<^verbatim>\<open>+\<close> for voice, nothing
  for neither, operator wins. A nil \<^verbatim>\<open>*ClientMode\<close> (\<open>None\<close>) cannot be read.
\<close>

definition Prefix :: "ClientMode option \<Rightarrow> error + string" where
  "Prefix m = (case m of None \<Rightarrow> Inl NilDereference
     | Some v \<Rightarrow> Inr (if operator v then ''@'' else if voice v then ''+'' else ''''))"

fun replyLine :: "string \<Rightarrow> string \<Rightarrow> replyCode \<Rightarrow> string list \<Rightarrow> string option" where
  "replyLine sn n rplWelcome args = Some ('':'' @ sn @ '' 001 '' @ n @ '' :Welcome to '' @ sn)"
| "replyLine sn n rplJoin (a0 # a1 # args) = Some ('':'' @ a0 @ '' JOIN '' @ a1)"
| "replyLine sn n rplPart (a0 # a1 # a2 # args) = Some ('':'' @ a0 @ '' PART '' @ a1 @ '' '' @ a2)"
| "replyLine sn n rplTopic (a0 # a1 # args) = Some ('':'' @ sn @ '' 332 '' @ n @ '' '' @ a0 @ '' :'' @ a1)"
| "replyLine sn n rplNoTopic (a0 # args) = Some ('':'' @ sn @ '' 331 '' @ n @ '' '' @ a0 @ '' :No topic is set'')"
| "replyLine sn n rplNames (a0 # a1 # args) = Some ('':'' @ sn @ '' 353 '' @ n @ '' = '' @ a0 @ '' :'' @ a1)"
| "replyLine sn n rplEndOfNames (a0 # args) = Some ('':'' @ sn @ '' 366 '' @ n @ '' '' @ a0 @ '' :End of NAMES list'')"
| "replyLine sn n rplNickChange (a0 # a1 # args) = Some ('':'' @ a0 @ '' NICK '' @ a1)"
| "replyLine sn n rplKill (a0 # a1 # args) = Some ('':'' @ a0 @ '' KILL '' @ n @ '' A '' @ a1)"
| "replyLine sn n rplMsg (a0 # a1 # a2 # args) = Some ('':'' @ a0 @ '' PRIVMSG '' @ a1 @ '' '' @ a2)"
| "replyLine sn n rplList (a0 # args) = Some ('':'' @ sn @ '' 322 '' @ n @ '' '' @ a0)"
| "replyLine sn n rplListEnd args = Some ('':'' @ sn @ '' 323 '' @ n)"
| "replyLine sn n rplOper args = Some ('':'' @ sn @ '' 381 '' @ n @ '' :You are now an operator'')"
| "replyLine sn n rplChannelModeIs (a0 # a1 # a2 # args) =
     Some ('':'' @ sn @ '' 324 '' @ n @ '' '' @ a0 @ '' '' @ a1 @ '' '' @ a2)"
| "replyLine sn n rplKick (a0 # a1 # a2 # a3 # args) =
     Some ('':'' @ a0 @ '' KICK '' @ a1 @ '' '' @ a2 @ '' '' @ a3)"
| "replyLine sn n rplInfo (a0 # args) = Some ('':'' @ sn @ '' 371 '' @ n @ '' :'' @ a0)"
| "replyLine sn n rplVersion (a0 # args) = Some ('':'' @ sn @ '' 351 '' @ n @ '' '' @ a0)"
| "replyLine sn n rplMOTDStart args = Some ('':'' @ sn @ '' 375 '' @ n @ '' :- Message of the day - '')"
| "replyLine sn n rplMOTD (a0 # args) = Some ('':'' @ sn @ '' 372 '' @ n @ '' :- '' @ a0)"
| "replyLine sn n rplEndOfMOTD args = Some ('':'' @ sn @ '' 376 '' @ n @ '' :End of MOTD Command'')"
| "replyLine sn n rplPong args = Some ('':'' @ sn @ '' PONG '' @ n @ '' '' @ sn)"
| "replyLine sn n errMoreArgs args = Some ('':'' @ sn @ '' 461 '' @ n @ '' :Not enough params'')"
| "replyLine sn n errNoNick args = Some ('':'' @ sn @ '' 431 '' @ n @ '' :No nickname given'')"
| "replyLine sn n errInvalidNick (a0 # args) =
     Some ('':'' @ sn @ '' 432 '' @ n @ '' '' @ a0 @ '' :Erronenous nickname'')"
| "replyLine sn n errNickInUse (a0 # args) =
     Some ('':'' @ sn @ '' 433 '' @ n @ '' '' @ a0 @ '' :Nick already in use'')"
| "replyLine sn n errAlreadyReg args = Some ('':'' @ sn @ '' 462 :You need a valid nick first'')"
| "replyLine sn n errNoSuchNick (a0 # args) =
     Some ('':'' @ sn @ '' 401 '' @ n @ '' '' @ a0 @ '' :No such nick/channel'')"
| "replyLine sn n errUnknownCommand (a0 # args) =
     Some ('':'' @ sn @ '' 421 '' @ n @ '' '' @ a0 @ '' :Unknown command'')"
| "replyLine sn n errNotReg args = Some ('':'' @ sn @ '' 451 :You have not registered'')"
| "replyLine sn n errPassword args = Some ('':'' @ sn @ '' 464 '' @ n @ '' :Error, password incorrect'')"
| "replyLine sn n errNoPriv args = Some ('':'' @ sn @ '' 481 '' @ n @ '' :Permission denied'')"
| "replyLine sn n errCannotSend (a0 # args) =
     Some ('':'' @ sn @ '' 404 '' @ n @ '' '' @ a0 @ '' :Cannot send to channel'')"
| "replyLine sn n code args = None"

definition reply :: "client_ref \<Rightarrow> replyCode \<Rightarrow> string list \<Rightarrow> Server \<Rightarrow> error + Server" where
  "reply c code args s =
     (if \<not> connected (clients s c) then Inr s
      else case replyLine (name s) (nick (clients s c)) code args of
             None \<Rightarrow> Inl IndexOutOfRange
           | Some l \<Rightarrow> Inr (send c (code, l) s))"

text \<open>\<^verbatim>\<open>for _, client := range m { client.reply(code, args...) }\<close>\<close>

fun replyAll :: "client_ref list \<Rightarrow> replyCode \<Rightarrow> string list \<Rightarrow> Server \<Rightarrow> error + Server" where
  "replyAll [] code args s = Inr s"
| "replyAll (cl # rest) code args s = bindE (reply cl code args s) (replyAll rest code args)"

definition disconnect :: "client_ref \<Rightarrow> Server \<Rightarrow> Server" where
  "disconnect c s =
     setClient c ((clients s c)\<lparr>connected := False, signalChan := signalChan (clients s c) @ [signalStop]\<rparr>) s"

text \<open>The inner loop of \<^verbatim>\<open>setNick\<close>: every member not yet visited is notified once.\<close>

fun notifyLoop :: "client_ref list \<Rightarrow> string \<Rightarrow> string \<Rightarrow> client_ref list \<Rightarrow> Server
    \<Rightarrow> error + (client_ref list \<times> Server)" where
  "notifyLoop [] oldNick newNick visited s = Inr (visited, s)"
| "notifyLoop (cl # rest) oldNick newNick visited s =
     (if cl \<in> set visited then notifyLoop rest oldNick newNick visited s
      else bindE (reply cl rplNickChange [oldNick, newNick] s)
             (\<lambda>s'. notifyLoop rest oldNick newNick (cl # visited) s'))"

text \<open>The outer loop of \<^verbatim>\<open>setNick\<close>, over the channels of the session.\<close>

fun setNickLoop :: "client_ref \<Rightarrow> string \<Rightarrow> string \<Rightarrow> channel_ref list \<Rightarrow> client_ref list
    \<Rightarrow> Server \<Rightarrow> error + Server" where
  "setNickLoop c oldNick oldKey [] visited s = Inr s"
| "setNickLoop c oldNick oldKey (ch # rest) visited s =
     (let s1 = setChannel ch ((channels s ch)\<lparr>ch_clientMap := AList.delete oldKey (ch_clientMap (channels s ch))\<rparr>) s
      in bindE (notifyLoop (map snd (ch_clientMap (channels s1 ch))) oldNick (nick (clients s1 c)) visited s1)
           (\<lambda>(visited', s2).
              let k = key (clients s2 c);
                  s3 = setChannel ch ((channels s2 ch)\<lparr>ch_clientMap := AList.update k c (ch_clientMap (channels s2 ch))\<rparr>) s2;
                  m = (case map_of (modeMap (channels s3 ch)) oldKey of None \<Rightarrow> None | Some p \<Rightarrow> p);
                  s4 = setChannel ch ((channels s3 ch)\<lparr>modeMap := AList.update k m (modeMap (channels s3 ch))\<rparr>) s3;
                  s5 = setChannel ch ((channels s4 ch)\<lparr>modeMap := AList.delete oldKey (modeMap (channels s4 ch))\<rparr>) s4
              in setNickLoop c oldNick oldKey rest visited' s5))"

definition setNick :: "client_ref \<Rightarrow> string \<Rightarrow> Server \<Rightarrow> error + Server" where
  "setNick c newNick s =
     (let oldNick = nick (clients s c);
          oldKey = key (clients s c);
          s1 = setClient c ((clients s c)\<lparr>nick := newNick\<rparr>) s;
          s2 = setClient c ((clients s1 c)\<lparr>key := ToLower (nick (clients s1 c))\<rparr>) s1;
          s3 = s2\<lparr>clientMap := AList.delete oldKey (clientMap s2)\<rparr>;
          s4 = s3\<lparr>clientMap := AList.update (key (clients s3 c)) c (clientMap s3)\<rparr>
      in bindE (reply c rplNickChange [oldNick, nick (clients s4 c)] s4)
           (\<lambda>s5. setNickLoop c oldNick oldKey (map snd (c_channelMap (clients s5 c))) [] s5))"

text \<open>
  The names loop of \<^verbatim>\<open>joinChannel\<close>. \<^verbatim>\<open>nicks\<close> is made with capacity 128 and is
  emptied before it would grow, so \<^verbatim>\<open>cap(nicks)\<close> stays 128.
\<close>

fun namesLoop :: "client_ref \<Rightarrow> string \<Rightarrow> channel_ref \<Rightarrow> client_ref list \<Rightarrow> string list
    \<Rightarrow> Server \<Rightarrow> error + (string list \<times> Server)" where
  "namesLoop c channelName ch [] nicks s = Inr (nicks, s)"
| "namesLoop c channelName ch (cl # rest) nicks s =
     bindE (case map_of (modeMap (channels s ch)) (key (clients s cl)) of
              None \<Rightarrow> Inr '''' | Some m \<Rightarrow> Prefix m)
       (\<lambda>prefix.
          bindE (if length nicks \<ge> 128
                 then bindE (reply c rplNames [channelName, Join nicks '' ''] s) (\<lambda>s'. Inr ([], s'))
                 else Inr (nicks, s))
            (\<lambda>(nicks', s'). namesLoop c channelName ch rest (nicks' @ [prefix @ nick (clients s' cl)]) s'))"

definition joinChannel :: "client_ref \<Rightarrow> string \<Rightarrow> Server \<Rightarrow> error + Server" where
  "joinChannel c channelName s =
     (let channelKey = ToLower channelName;
          (newChannel, ch, s1) =
            (case map_of (channelMap s) channelKey of
               Some ch \<Rightarrow> (False, ch, s)
             | None \<Rightarrow>
                 (let ch = nextChannel s;
                      m = \<lparr>secret = True, topicLocked = True, noExternal = True\<rparr>;
                      v = \<lparr>ch_name = channelName, topic = '''', ch_clientMap = [], modeMap = [], mode = m\<rparr>
                  in (True, ch,
                      (setChannel ch v s)\<lparr>channelMap := AList.update channelKey ch (channelMap s),
                                         nextChannel := Suc ch\<rparr>)))
      in if map_of (ch_clientMap (channels s1 ch)) (key (clients s1 c)) \<noteq> None then Inr s1
         else
           let m = \<lparr>operator = newChannel, voice = False\<rparr>;
               k = key (clients s1 c);
               s2 = setChannel ch ((channels s1 ch)\<lparr>ch_clientMap := AList.update k c (ch_clientMap (channels s1 ch))\<rparr>) s1;
               s3 = setChannel ch ((channels s2 ch)\<lparr>modeMap := AList.update k (Some m) (modeMap (channels s2 ch))\<rparr>) s2;
               s4 = setClient c ((clients s3 c)\<lparr>c_channelMap := AList.update channelKey ch (c_channelMap (clients s3 c))\<rparr>) s3
           in bindE (replyAll (map snd (ch_clientMap (channels s4 ch))) rplJoin
                       [nick (clients s4 c), ch_name (channels s4 ch)] s4)
                (\<lambda>s5. bindE (if topic (channels s5 ch) \<noteq> ''''
                              then reply c rplTopic [ch_name (channels s5 ch), topic (channels s5 ch)] s5
                              else reply c rplNoTopic [ch_name (channels s5 ch)] s5)
                   (\<lambda>s6. bindE (namesLoop c channelName ch (map snd (ch_clientMap (channels s6 ch))) [] s6)
                      (\<lambda>(nicks, s7). bindE (if length nicks > 0
                                             then reply c rplNames [channelName, Join nicks '' ''] s7
                                             else Inr s7)
                         (\<lambda>s8. reply c rplEndOfNames [channelName] s8)))))"

definition partChannel :: "client_ref \<Rightarrow> string \<Rightarrow> string \<Rightarrow> Server \<Rightarrow> error + Server" where
  "partChannel c channelName reason s =
     (let channelKey = ToLower channelName
      in case map_of (channelMap s) channelKey of
           None \<Rightarrow> Inr s
         | Some ch \<Rightarrow>
             if map_of (ch_clientMap (channels s ch)) (key (clients s c)) = None then Inr s
             else bindE (replyAll (map snd (ch_clientMap (channels s ch))) rplPart
                           [nick (clients s c), ch_name (channels s ch), reason] s)
                    (\<lambda>s1.
                       let s2 = setClient c ((clients s1 c)\<lparr>c_channelMap := AList.delete channelKey (c_channelMap (clients s1 c))\<rparr>) s1;
                           s3 = setChannel ch ((channels s2 ch)\<lparr>modeMap := AList.delete (key (clients s2 c)) (modeMap (channels s2 ch))\<rparr>) s2;
                           s4 = setChannel ch ((channels s3 ch)\<lparr>ch_clientMap := AList.delete (key (clients s3 c)) (ch_clientMap (channels s3 ch))\<rparr>) s3
                       in Inr (if length (ch_clientMap (channels s4 ch)) = 0
                               then s4\<lparr>channelMap := AList.delete channelKey (channelMap s4)\<rparr>
                               else s4)))"

subsection \<open>Notions used in the statements\<close>

text \<open>
  \<open>withOutput f s\<close> is \<open>s\<close> after every session \<open>x\<close> has been handed the lines
  \<open>f x\<close>: the only difference a run of \<^verbatim>\<open>reply\<close> calls makes.
\<close>

definition withOutput :: "(client_ref \<Rightarrow> (replyCode \<times> string) list) \<Rightarrow> Server \<Rightarrow> Server" where
  "withOutput f s = s\<lparr>clients := (\<lambda>x. (clients s x)\<lparr>outputChan := outputChan (clients s x) @ f x\<rparr>)\<rparr>"

text \<open>What \<^verbatim>\<open>setNick\<close> does to one channel of the session.\<close>

definition renameIn :: "string \<Rightarrow> string \<Rightarrow> client_ref \<Rightarrow> Channel \<Rightarrow> Channel" where
  "renameIn oldKey k c v =
     v\<lparr>ch_clientMap := AList.update k c (AList.delete oldKey (ch_clientMap v)),
       modeMap := AList.delete oldKey
          (AList.update k (case map_of (modeMap v) oldKey of None \<Rightarrow> None | Some p \<Rightarrow> p) (modeMap v))\<rparr>"

text \<open>The line \<^verbatim>\<open>reply(rplNickChange, oldNick, newNick)\<close> queues.\<close>

definition nickLine :: "string \<Rightarrow> string \<Rightarrow> replyCode \<times> string" where
  "nickLine old new = (rplNickChange, '':'' @ old @ '' NICK '' @ new)"

text \<open>\<open>T\<close> is listed in the member table of a channel that \<open>S\<close> has joined.\<close>

definition sharesChannel :: "Server \<Rightarrow> client_ref \<Rightarrow> client_ref \<Rightarrow> bool" where
  "sharesChannel s S T =
     (\<exists>ch \<in> set (map snd (c_channelMap (clients s S))). T \<in> snd ` set (ch_clientMap (channels s ch)))"

subsection \<open>A concrete server\<close>

text \<open>
  Scenario 4 of the specification: Alice and bob are in \<^verbatim>\<open>#r1\<close>, Alice and carol in
  \<^verbatim>\<open>#r2\<close>, dave is in no channel. \<open>newClient\<close> is the Client that
  \<^verbatim>\<open>HandleConnection\<close> makes.
\<close>

definition newClient :: Client where
  "newClient = \<lparr>nick = '''', key = '''', registered = False, connected = True,
                c_channelMap = [], outputChan = [], signalChan = []\<rparr>"

definition noChannel :: Channel where
  "noChannel = \<lparr>ch_name = '''', topic = '''', ch_clientMap = [], modeMap = [],
                mode = \<lparr>secret = False, topicLocked = False, noExternal = False\<rparr>\<rparr>"

definition session :: "string \<Rightarrow> (string \<times> channel_ref) list \<Rightarrow> Client" where
  "session n chs = \<lparr>nick = n, key = ToLower n, registered = True, connected = True,
                c_channelMap = chs, outputChan = [], signalChan = []\<rparr>"

definition room :: "string \<Rightarrow> (string \<times> client_ref) list \<Rightarrow> (string \<times> ClientMode option) list \<Rightarrow> Channel" where
  "room n ms modes = \<lparr>ch_name = n, topic = '''', ch_clientMap = ms, modeMap = modes,
                mode = \<lparr>secret = True, topicLocked = True, noExternal = True\<rparr>\<rparr>"

definition exampleServer :: Server where
  "exampleServer =
     \<lparr>name = ''rosella'',
      clientMap = [(''alice'', 0), (''bob'', 1), (''carol'', 2), (''dave'', 3)],
      channelMap = [(''#r1'', 0), (''#r2'', 1)],
      clients = (\<lambda>x. newClient)
        (0 := session ''Alice'' [(''#r1'', 0), (''#r2'', 1)],
         1 := session ''bob'' [(''#r1'', 0)],
         2 := session ''carol'' [(''#r2'', 1)],
         3 := session ''dave'' []),
      channels = (\<lambda>x. noChannel)
        (0 := room ''#r1'' [(''alice'', 0), (''bob'', 1)]
                [(''alice'', Some \<lparr>operator = True, voice = False\<rparr>), (''bob'', Some \<lparr>operator = False, voice = False\<rparr>)],
         1 := room ''#r2'' [(''carol'', 2), (''alice'', 0)]
                [(''carol'', Some \<lparr>operator = True, voice = False\<rparr>), (''alice'', Some \<lparr>operator = False, voice = True\<rparr>)]),
      nextChannel = 2\<rparr>"

subsection \<open>Basic facts\<close>

lemma bindE_Inr: "bindE (Inr x) f = f x"
  by (simp add: bindE_def)

lemma bindE_Inl: "bindE (Inl e) f = Inl e"
  by (simp add: bindE_def)

lemma withOutput_simps [simp]:
  "name (withOutput f s) = name s"
  "clientMap (withOutput f s) = clientMap s"
  "channelMap (withOutput f s) = channelMap s"
  "channels (withOutput f s) = channels s"
  "nextChannel (withOutput f s) = nextChannel s"
  "nick (clients (withOutput f s) x) = nick (clients s x)"
  "key (clients (withOutput f s) x) = key (clients s x)"
  "registered (clients (withOutput f s) x) = registered (clients s x)"
  "connected (clients (withOutput f s) x) = connected (clients s x)"
  "c_channelMap (clients (withOutput f s) x) = c_channelMap (clients s x)"
  "signalChan (clients (withOutput f s) x) = signalChan (clients s x)"
  "outputChan (clients (withOutput f s) x) = outputChan (clients s x) @ f x"
  by (simp_all add: withOutput_def)

lemma withOutput_nil [simp]: "withOutput (\<lambda>x. []) s = s"
  by (simp add: withOutput_def)

lemma withOutput_withOutput [simp]:
  "withOutput g (withOutput f s) = withOutput (\<lambda>x. f x @ g x) s"
  by (simp add: withOutput_def)

lemma send_withOutput: "send c l s = withOutput (\<lambda>x. if x = c then [l] else []) s"
  by (auto simp add: send_def withOutput_def fun_eq_iff intro!: Server.equality)

lemma withOutput_cong: "(\<And>x. f x = g x) \<Longrightarrow> withOutput f s = withOutput g s"
  by (simp add: withOutput_def)

lemma setChannel_withOutput:
  "setChannel ch v (withOutput f s) = withOutput f (setChannel ch v s)"
  by (simp add: withOutput_def setChannel_def)

lemma reply_withOutput:
  "replyLine (name s) (nick (clients s c)) code args = Some l \<Longrightarrow>
   reply c code args s = Inr (withOutput (\<lambda>x. if x = c \<and> connected (clients s c) then [(code, l)] else []) s)"
  by (simp add: reply_def send_withOutput)

lemma reply_disconnected: "\<not> connected (clients s c) \<Longrightarrow> reply c code args s = Inr s"
  by (simp add: reply_def)

lemma replyAll_withOutput:
  "(\<forall>x \<in> set xs. connected (clients s x) \<longrightarrow> replyLine (name s) (nick (clients s x)) code args \<noteq> None) \<Longrightarrow>
   replyAll xs code args s =
     Inr (withOutput (\<lambda>x. if connected (clients s x)
            then replicate (count_list xs x) (code, the (replyLine (name s) (nick (clients s x)) code args))
            else []) s)"
proof (induction xs arbitrary: s)
  case Nil
  have "(\<lambda>x. if connected (clients s x)
            then replicate (count_list [] x) (code, the (replyLine (name s) (nick (clients s x)) code args))
            else []) = (\<lambda>x. [])" by (simp add: fun_eq_iff)
  then show ?case by simp
next
  case (Cons cl rest)
  show ?case
  proof (cases "connected (clients s cl)")
    case False
    then have "reply cl code args s = Inr s" by (rule reply_disconnected)
    moreover have "replyAll rest code args s = Inr (withOutput (\<lambda>x. if connected (clients s x)
            then replicate (count_list rest x) (code, the (replyLine (name s) (nick (clients s x)) code args))
            else []) s)"
      using Cons.prems by (intro Cons.IH) simp
    ultimately show ?thesis using False
      by (auto simp add: bindE_Inr intro!: withOutput_cong)
  next
    case True
    then obtain l where l: "replyLine (name s) (nick (clients s cl)) code args = Some l"
      using Cons.prems by auto
    let ?s1 = "withOutput (\<lambda>x. if x = cl \<and> connected (clients s cl) then [(code, l)] else []) s"
    have r: "reply cl code args s = Inr ?s1" using l by (rule reply_withOutput)
    have "replyAll rest code args ?s1 = Inr (withOutput (\<lambda>x. if connected (clients ?s1 x)
            then replicate (count_list rest x) (code, the (replyLine (name ?s1) (nick (clients ?s1 x)) code args))
            else []) ?s1)"
      using Cons.prems by (intro Cons.IH) simp
    then show ?thesis using r l True
      by (auto simp add: bindE_Inr intro!: withOutput_cong)
  qed
qed

lemma notifyLoop_withOutput:
  "\<exists>V'. notifyLoop xs old new V s =
      Inr (V', withOutput (\<lambda>x. if x \<in> set xs \<and> x \<notin> set V \<and> connected (clients s x)
                                then [(rplNickChange, '':'' @ old @ '' NICK '' @ new)] else []) s)
    \<and> set V' = set V \<union> set xs"
proof (induction xs arbitrary: V s)
  case Nil
  then show ?case by simp
next
  case (Cons cl rest)
  show ?case
  proof (cases "cl \<in> set V")
    case True
    obtain V' where "notifyLoop rest old new V s =
      Inr (V', withOutput (\<lambda>x. if x \<in> set rest \<and> x \<notin> set V \<and> connected (clients s x)
                                then [(rplNickChange, '':'' @ old @ '' NICK '' @ new)] else []) s)"
      and "set V' = set V \<union> set rest"
      using Cons.IH[of V s] by blast
    then show ?thesis using True
      by (auto intro!: withOutput_cong)
  next
    case False
    let ?l = "(rplNickChange, '':'' @ old @ '' NICK '' @ new)"
    let ?s1 = "withOutput (\<lambda>x. if x = cl \<and> connected (clients s cl) then [?l] else []) s"
    have r: "reply cl rplNickChange [old, new] s = Inr ?s1"
      by (rule reply_withOutput) simp
    obtain V' where "notifyLoop rest old new (cl # V) ?s1 =
      Inr (V', withOutput (\<lambda>x. if x \<in> set rest \<and> x \<notin> set (cl # V) \<and> connected (clients ?s1 x)
                                then [?l] else []) ?s1)"
      and "set V' = set (cl # V) \<union> set rest"
      using Cons.IH[of "cl # V" ?s1] by blast
    then show ?thesis using False r
      by (auto simp add: bindE_Inr intro!: withOutput_cong)
  qed
qed

lemma channels_update_withOutput:
  "(withOutput f s)\<lparr>channels := G\<rparr> = withOutput f (s\<lparr>channels := G\<rparr>)"
  by (simp add: withOutput_def)

lemma clientMap_update_withOutput:
  "(withOutput f s)\<lparr>clientMap := G\<rparr> = withOutput f (s\<lparr>clientMap := G\<rparr>)"
  by (simp add: withOutput_def)

lemma withOutput_eqI:
  "s = t \<Longrightarrow> (\<And>x. f x = g x) \<Longrightarrow> withOutput f s = withOutput g t"
  by (simp add: withOutput_def)

lemma notifyLoop_nickLine:
  "\<exists>V'. notifyLoop xs old new V s =
      Inr (V', withOutput (\<lambda>x. if x \<in> set xs \<and> x \<notin> set V \<and> connected (clients s x)
                                then [nickLine old new] else []) s)
    \<and> set V' = set V \<union> set xs"
  unfolding nickLine_def by (rule notifyLoop_withOutput)

lemma setNickLoop_closed:
  assumes "distinct chs"
  shows "setNickLoop c oldNick oldKey chs V s =
     Inr (withOutput
           (\<lambda>x. if connected (clients s x) \<and> x \<notin> set V \<and>
                    (\<exists>ch \<in> set chs. x \<in> snd ` set (AList.delete oldKey (ch_clientMap (channels s ch))))
                 then [nickLine oldNick (nick (clients s c))] else [])
           (s\<lparr>channels := (\<lambda>ch. if ch \<in> set chs
                                 then renameIn oldKey (key (clients s c)) c (channels s ch)
                                 else channels s ch)\<rparr>))"
  using assms
proof (induction chs arbitrary: V s)
  case Nil
  then show ?case by simp
next
  case (Cons ch rest)
  let ?l = "nickLine oldNick (nick (clients s c))"
  let ?ms = "map snd (AList.delete oldKey (ch_clientMap (channels s ch)))"
  let ?s1 = "setChannel ch ((channels s ch)\<lparr>ch_clientMap := AList.delete oldKey (ch_clientMap (channels s ch))\<rparr>) s"
  let ?g = "\<lambda>x. if x \<in> set ?ms \<and> x \<notin> set V \<and> connected (clients ?s1 x) then [?l] else []"
  have ms: "map snd (ch_clientMap (channels ?s1 ch)) = ?ms"
    by (simp add: setChannel_def)
  have nk: "nick (clients ?s1 c) = nick (clients s c)"
    by (simp add: setChannel_def)
  obtain V' where n: "notifyLoop ?ms oldNick (nick (clients s c)) V ?s1 = Inr (V', withOutput ?g ?s1)"
    and V': "set V' = set V \<union> set ?ms"
    using notifyLoop_nickLine[of ?ms oldNick "nick (clients s c)" V ?s1]
    by blast
  let ?sA = "s\<lparr>channels := (channels s)(ch := renameIn oldKey (key (clients s c)) c (channels s ch))\<rparr>"
  have step: "setNickLoop c oldNick oldKey (ch # rest) V s =
      setNickLoop c oldNick oldKey rest V' (withOutput ?g ?sA)"
    using n
    apply (simp add: ms nk bindE_Inr Let_def del: notifyLoop.simps)
    apply (rule arg_cong[where f="setNickLoop c oldNick oldKey rest V'"])
    apply (simp add: setChannel_def withOutput_def renameIn_def)
    done
  have d: "distinct rest" "ch \<notin> set rest" using Cons.prems by auto
  have ih: "setNickLoop c oldNick oldKey rest V' (withOutput ?g ?sA) =
     Inr (withOutput
           (\<lambda>x. if connected (clients (withOutput ?g ?sA) x) \<and> x \<notin> set V' \<and>
                    (\<exists>ch' \<in> set rest. x \<in> snd ` set (AList.delete oldKey (ch_clientMap (channels (withOutput ?g ?sA) ch'))))
                 then [nickLine oldNick (nick (clients (withOutput ?g ?sA) c))] else [])
           ((withOutput ?g ?sA)\<lparr>channels := (\<lambda>ch'. if ch' \<in> set rest
                                 then renameIn oldKey (key (clients (withOutput ?g ?sA) c)) c (channels (withOutput ?g ?sA) ch')
                                 else channels (withOutput ?g ?sA) ch')\<rparr>))"
    by (rule Cons.IH[OF d(1)])
  show ?case
    unfolding step ih channels_update_withOutput withOutput_withOutput
    apply (rule arg_cong[where f=Inr])
    apply (rule withOutput_eqI)
    subgoal using d(2) by (auto simp add: fun_eq_iff intro!: Server.equality)
    subgoal for x using d(2) V' by (auto simp add: setChannel_def)
    done
qed

lemma setNick_closed:
  assumes "distinct (map snd (c_channelMap (clients s c)))"
  shows "setNick c newNick s =
     Inr (withOutput
           (\<lambda>x. (if x = c \<and> connected (clients s c) then [nickLine (nick (clients s c)) newNick] else []) @
                 (if connected (clients s x) \<and>
                     (\<exists>ch \<in> set (map snd (c_channelMap (clients s c))).
                        x \<in> snd ` set (AList.delete (key (clients s c)) (ch_clientMap (channels s ch))))
                  then [nickLine (nick (clients s c)) newNick] else []))
           (s\<lparr>clientMap := AList.update (ToLower newNick) c (AList.delete (key (clients s c)) (clientMap s)),
              clients := (clients s)(c := (clients s c)\<lparr>nick := newNick, key := ToLower newNick\<rparr>),
              channels := (\<lambda>ch. if ch \<in> set (map snd (c_channelMap (clients s c)))
                                 then renameIn (key (clients s c)) (ToLower newNick) c (channels s ch)
                                 else channels s ch)\<rparr>))"
proof -
  let ?oldNick = "nick (clients s c)"
  let ?oldKey = "key (clients s c)"
  let ?chs = "map snd (c_channelMap (clients s c))"
  let ?s4 = "s\<lparr>clients := (clients s)(c := (clients s c)\<lparr>nick := newNick, key := ToLower newNick\<rparr>),
               clientMap := AList.update (ToLower newNick) c (AList.delete ?oldKey (clientMap s))\<rparr>"
  let ?g = "\<lambda>x. if x = c \<and> connected (clients ?s4 c) then [nickLine ?oldNick newNick] else []"
  have r: "reply c rplNickChange [?oldNick, newNick] ?s4 = Inr (withOutput ?g ?s4)"
    unfolding nickLine_def by (rule reply_withOutput) simp
  have unf: "setNick c newNick s =
      bindE (reply c rplNickChange [?oldNick, newNick] ?s4)
        (\<lambda>s5. setNickLoop c ?oldNick ?oldKey (map snd (c_channelMap (clients s5 c))) [] s5)"
    by (simp add: setNick_def Let_def setClient_def)
  have loop: "setNickLoop c ?oldNick ?oldKey ?chs [] (withOutput ?g ?s4) =
     Inr (withOutput
           (\<lambda>x. if connected (clients (withOutput ?g ?s4) x) \<and> x \<notin> set [] \<and>
                    (\<exists>ch \<in> set ?chs. x \<in> snd ` set (AList.delete ?oldKey (ch_clientMap (channels (withOutput ?g ?s4) ch))))
                 then [nickLine ?oldNick (nick (clients (withOutput ?g ?s4) c))] else [])
           ((withOutput ?g ?s4)\<lparr>channels := (\<lambda>ch. if ch \<in> set ?chs
                                 then renameIn ?oldKey (key (clients (withOutput ?g ?s4) c)) c (channels (withOutput ?g ?s4) ch)
                                 else channels (withOutput ?g ?s4) ch)\<rparr>))"
    by (rule setNickLoop_closed[OF assms])
  have chs: "map snd (c_channelMap (clients (withOutput ?g ?s4) c)) = ?chs"
    by simp
  show ?thesis
    unfolding unf r bindE_Inr chs loop channels_update_withOutput withOutput_withOutput
    apply (rule arg_cong[where f=Inr])
    apply (rule withOutput_eqI)
    subgoal by (auto simp add: fun_eq_iff intro!: Server.equality)
    subgoal for x by auto
    done
qed

lemma delete_snd_iff:
  "x \<in> snd ` set (AList.delete k al) \<longleftrightarrow> (\<exists>k'. (k', x) \<in> set al \<and> k' \<noteq> k)"
  by (auto simp add: AList.delete_eq image_iff)

subsection \<open>setNick (client.go)\<close>

text \<open>
  C1. \<^verbatim>\<open>setNick\<close> on a connected session \<open>S\<close> returns, and it queues exactly one
  rplNickChange line for \<open>S\<close>, exactly one for every other connected session listed in a
  channel of \<open>S\<close>, and nothing for a session listed in none of them. The state is
  well formed: the channels of \<open>S\<close> are distinct, and in each of them \<open>S\<close> is listed
  under its key and under no other, and no other session is listed under that key.
  (\<^verbatim>\<open>reply\<close> hands nothing to a session whose \<^verbatim>\<open>connected\<close> flag is cleared.)
\<close>

theorem C1_setNick_notifies:
  assumes "connected (clients s S)"
    and "distinct (map snd (c_channelMap (clients s S)))"
    and "\<forall>ch \<in> set (map snd (c_channelMap (clients s S))).
           \<forall>(k, x) \<in> set (ch_clientMap (channels s ch)). (x = S) = (k = key (clients s S))"
  shows "\<exists>s'. setNick S newNick s = Inr s' \<and>
           outputChan (clients s' S) = outputChan (clients s S) @ [nickLine (nick (clients s S)) newNick] \<and>
           (\<forall>T. T \<noteq> S \<and> connected (clients s T) \<and> sharesChannel s S T \<longrightarrow>
                outputChan (clients s' T) = outputChan (clients s T) @ [nickLine (nick (clients s S)) newNick]) \<and>
           (\<forall>T. T \<noteq> S \<and> \<not> sharesChannel s S T \<longrightarrow>
                outputChan (clients s' T) = outputChan (clients s T))"
proof -
  let ?chs = "map snd (c_channelMap (clients s S))"
  let ?l = "nickLine (nick (clients s S)) newNick"
  let ?seen = "\<lambda>x. \<exists>ch \<in> set ?chs. x \<in> snd ` set (AList.delete (key (clients s S)) (ch_clientMap (channels s ch)))"
  have self: "\<not> ?seen S"
  proof
    assume "?seen S"
    then obtain ch k' where "ch \<in> set ?chs" "(k', S) \<in> set (ch_clientMap (channels s ch))"
      "k' \<noteq> key (clients s S)"
      unfolding delete_snd_iff by blast
    with assms(3) show False by (auto dest!: bspec)
  qed
  have other: "?seen T \<longleftrightarrow> sharesChannel s S T" if "T \<noteq> S" for T
  proof
    assume "?seen T"
    then obtain ch k' where "ch \<in> set ?chs" "(k', T) \<in> set (ch_clientMap (channels s ch))"
      unfolding delete_snd_iff by blast
    then show "sharesChannel s S T"
      unfolding sharesChannel_def by force
  next
    assume "sharesChannel s S T"
    then obtain ch where ch: "ch \<in> set ?chs" and "T \<in> snd ` set (ch_clientMap (channels s ch))"
      unfolding sharesChannel_def by blast
    then obtain k' where k': "(k', T) \<in> set (ch_clientMap (channels s ch))"
      by force
    from assms(3) ch k' that have "k' \<noteq> key (clients s S)" by (auto dest!: bspec)
    with ch k' show "?seen T" unfolding delete_snd_iff by blast
  qed
  obtain s' where s': "setNick S newNick s = Inr s'"
    and out: "\<And>x. outputChan (clients s' x) = outputChan (clients s x) @
        (if x = S \<and> connected (clients s S) then [?l] else []) @
        (if connected (clients s x) \<and> ?seen x then [?l] else [])"
    unfolding setNick_closed[OF assms(2)] by simp
  have "outputChan (clients s' S) = outputChan (clients s S) @ [?l]"
    unfolding out using assms(1) self by simp
  moreover have "outputChan (clients s' T) = outputChan (clients s T) @ [?l]"
    if "T \<noteq> S \<and> connected (clients s T) \<and> sharesChannel s S T" for T
    unfolding out using that other[of T] by simp
  moreover have "outputChan (clients s' T) = outputChan (clients s T)"
    if "T \<noteq> S \<and> \<not> sharesChannel s S T" for T
    unfolding out using that other[of T] by simp
  ultimately show ?thesis using s' by blast
qed

lemma map_of_renameIn_members:
  "map_of (ch_clientMap (renameIn kOld kNew c v)) k =
     (if k = kNew then Some c else if k = kOld then None else map_of (ch_clientMap v) k)"
  by (simp add: renameIn_def AList.update_conv' AList.delete_conv')

lemma map_of_renameIn_modes:
  "map_of (modeMap (renameIn kOld kNew c v)) k =
     (if k = kOld then None
      else if k = kNew then Some (case map_of (modeMap v) kOld of None \<Rightarrow> None | Some p \<Rightarrow> p)
      else map_of (modeMap v) k)"
  by (simp add: renameIn_def AList.update_conv' AList.delete_conv')

text \<open>
  C2. \<^verbatim>\<open>setNick\<close> re-keys the session. With \<open>kOld\<close> the old key of \<open>S\<close> and
  \<open>kNew\<close> the lower-cased new nick: \<open>clientMap\<close> maps \<open>kNew\<close> to \<open>S\<close> and has no
  entry under \<open>kOld\<close>; in every channel of \<open>S\<close> the member table maps \<open>kNew\<close> to
  \<open>S\<close>, the mode table holds under \<open>kNew\<close> the mode it held under \<open>kOld\<close>, and
  neither has an entry under \<open>kOld\<close>; the entries of every other session, and every
  other channel, are as before. The caller has checked that \<open>kNew\<close> is not in use
  (so \<open>kNew\<close> differs from \<open>kOld\<close>), and the state is well formed: the channels of
  \<open>S\<close> are distinct, and each lists \<open>S\<close> under \<open>kOld\<close> with a mode.
\<close>

theorem C2_setNick_rekeys:
  assumes "ToLower newNick \<noteq> key (clients s S)"
    and "distinct (map snd (c_channelMap (clients s S)))"
    and "map_of (clientMap s) (ToLower newNick) = None"
    and "\<forall>T. map_of (clientMap s) (key (clients s S)) = Some T \<longrightarrow> T = S"
    and "\<forall>ch \<in> set (map snd (c_channelMap (clients s S))).
           map_of (ch_clientMap (channels s ch)) (key (clients s S)) = Some S \<and>
           map_of (ch_clientMap (channels s ch)) (ToLower newNick) = None \<and>
           map_of (modeMap (channels s ch)) (key (clients s S)) \<noteq> None"
  shows "\<exists>s'. setNick S newNick s = Inr s' \<and>
           key (clients s' S) = ToLower newNick \<and>
           map_of (clientMap s') (ToLower newNick) = Some S \<and>
           map_of (clientMap s') (key (clients s S)) = None \<and>
           (\<forall>k T. T \<noteq> S \<longrightarrow> (map_of (clientMap s') k = Some T) = (map_of (clientMap s) k = Some T)) \<and>
           (\<forall>ch \<in> set (map snd (c_channelMap (clients s S))).
              map_of (ch_clientMap (channels s' ch)) (ToLower newNick) = Some S \<and>
              map_of (ch_clientMap (channels s' ch)) (key (clients s S)) = None \<and>
              map_of (modeMap (channels s' ch)) (ToLower newNick) =
                map_of (modeMap (channels s ch)) (key (clients s S)) \<and>
              map_of (modeMap (channels s' ch)) (key (clients s S)) = None \<and>
              (\<forall>k T. T \<noteq> S \<longrightarrow> (map_of (ch_clientMap (channels s' ch)) k = Some T) =
                                   (map_of (ch_clientMap (channels s ch)) k = Some T)) \<and>
              (\<forall>k. k \<noteq> ToLower newNick \<and> k \<noteq> key (clients s S) \<longrightarrow>
                   map_of (modeMap (channels s' ch)) k = map_of (modeMap (channels s ch)) k)) \<and>
           (\<forall>ch. ch \<notin> set (map snd (c_channelMap (clients s S))) \<longrightarrow> channels s' ch = channels s ch)"
proof -
  let ?kOld = "key (clients s S)"
  let ?kNew = "ToLower newNick"
  let ?chs = "map snd (c_channelMap (clients s S))"
  obtain s' where s': "setNick S newNick s = Inr s'"
    and cm: "clientMap s' = AList.update ?kNew S (AList.delete ?kOld (clientMap s))"
    and ky: "key (clients s' S) = ?kNew"
    and chn: "\<And>ch. channels s' ch = (if ch \<in> set ?chs then renameIn ?kOld ?kNew S (channels s ch) else channels s ch)"
    unfolding setNick_closed[OF assms(2)] by simp
  have m: "map_of (clientMap s') k = (if k = ?kNew then Some S else if k = ?kOld then None else map_of (clientMap s) k)" for k
    unfolding cm by (simp add: AList.update_conv' AList.delete_conv')
  have a: "map_of (clientMap s') ?kNew = Some S" "map_of (clientMap s') ?kOld = None"
    using assms(1) by (simp_all add: m)
  have b: "(map_of (clientMap s') k = Some T) = (map_of (clientMap s) k = Some T)" if "T \<noteq> S" for k T
    using that assms(3,4) by (auto simp add: m)
  have c: "map_of (ch_clientMap (channels s' ch)) ?kNew = Some S \<and>
              map_of (ch_clientMap (channels s' ch)) ?kOld = None \<and>
              map_of (modeMap (channels s' ch)) ?kNew = map_of (modeMap (channels s ch)) ?kOld \<and>
              map_of (modeMap (channels s' ch)) ?kOld = None \<and>
              (\<forall>k T. T \<noteq> S \<longrightarrow> (map_of (ch_clientMap (channels s' ch)) k = Some T) =
                                   (map_of (ch_clientMap (channels s ch)) k = Some T)) \<and>
              (\<forall>k. k \<noteq> ?kNew \<and> k \<noteq> ?kOld \<longrightarrow>
                   map_of (modeMap (channels s' ch)) k = map_of (modeMap (channels s ch)) k)"
    if "ch \<in> set ?chs" for ch
  proof -
    from assms(5) that have h: "map_of (ch_clientMap (channels s ch)) ?kOld = Some S"
      "map_of (ch_clientMap (channels s ch)) ?kNew = None"
      "map_of (modeMap (channels s ch)) ?kOld \<noteq> None" by blast+
    from h(3) obtain p where p: "map_of (modeMap (channels s ch)) ?kOld = Some p" by blast
    have e: "channels s' ch = renameIn ?kOld ?kNew S (channels s ch)" using that by (simp add: chn)
    show ?thesis
      unfolding e map_of_renameIn_members map_of_renameIn_modes
      using assms(1) h(1,2) p by auto
  qed
  have d: "channels s' ch = channels s ch" if "ch \<notin> set ?chs" for ch
    using that by (simp add: chn)
  show ?thesis
    using s' ky a b c d by blast
qed

subsection \<open>partChannel (client.go)\<close>

text \<open>
  C9. PART by a session that is not a member of the channel (the channel does not exist, or
  its member table has no entry under the session's key) returns at once: the whole state
  is unchanged, so no PART line is sent and the member table, the mode table and
  \<open>channelMap\<close> are as before.
\<close>

theorem C9_part_nonmember_unchanged:
  assumes "case map_of (channelMap s) (ToLower channelName) of
             None \<Rightarrow> True
           | Some ch \<Rightarrow> map_of (ch_clientMap (channels s ch)) (key (clients s c)) = None"
  shows "partChannel c channelName reason s = Inr s"
  using assms by (simp add: partChannel_def split: option.splits)

subsection \<open>The theorems at the concrete server\<close>

lemmas ex_defs = exampleServer_def session_def room_def newClient_def noChannel_def
  ToLower_def ToLowerChar_def upperLetters_def lowerLetters_def

theorem C1_witness:
  "\<exists>s'. setNick 0 ''Alice2'' exampleServer = Inr s' \<and>
     outputChan (clients s' 0) = [(rplNickChange, '':Alice NICK Alice2'')] \<and>
     outputChan (clients s' 1) = [(rplNickChange, '':Alice NICK Alice2'')] \<and>
     outputChan (clients s' 2) = [(rplNickChange, '':Alice NICK Alice2'')] \<and>
     outputChan (clients s' 3) = []"
proof -
  have h1: "connected (clients exampleServer 0)"
    by (simp add: ex_defs)
  have h2: "distinct (map snd (c_channelMap (clients exampleServer 0)))"
    by (simp add: ex_defs)
  have h3: "\<forall>ch \<in> set (map snd (c_channelMap (clients exampleServer 0))).
           \<forall>(k, x) \<in> set (ch_clientMap (channels exampleServer ch)). (x = 0) = (k = key (clients exampleServer 0))"
    by (simp add: ex_defs)
  have sh: "sharesChannel exampleServer 0 1" "sharesChannel exampleServer 0 2"
    "\<not> sharesChannel exampleServer 0 3"
    by (simp_all add: sharesChannel_def ex_defs)
  have c: "connected (clients exampleServer 1)" "connected (clients exampleServer 2)"
    by (simp_all add: ex_defs)
  have o: "outputChan (clients exampleServer 0) = []" "outputChan (clients exampleServer 1) = []"
    "outputChan (clients exampleServer 2) = []" "outputChan (clients exampleServer 3) = []"
    "nick (clients exampleServer 0) = ''Alice''"
    by (simp_all add: ex_defs)
  from C1_setNick_notifies[OF h1 h2 h3, of "''Alice2''"] sh c o
  show ?thesis
    by (auto simp add: nickLine_def)
qed

theorem C9_witness: "partChannel 3 ''#r1'' ''bye'' exampleServer = Inr exampleServer"
proof -
  have "case map_of (channelMap exampleServer) (ToLower ''#r1'') of
             None \<Rightarrow> True
           | Some ch \<Rightarrow> map_of (ch_clientMap (channels exampleServer ch)) (key (clients exampleServer 3)) = None"
    by (simp add: ex_defs)
  then show ?thesis by (rule C9_part_nonmember_unchanged)
qed

theorem C2_witness:
  "\<exists>s'. setNick 0 ''Alice2'' exampleServer = Inr s' \<and>
     map_of (clientMap s') ''alice2'' = Some 0 \<and> map_of (clientMap s') ''alice'' = None \<and>
     map_of (ch_clientMap (channels s' 1)) ''alice2'' = Some 0 \<and>
     map_of (ch_clientMap (channels s' 1)) ''alice'' = None \<and>
     map_of (modeMap (channels s' 1)) ''alice2'' = Some (Some \<lparr>operator = False, voice = True\<rparr>) \<and>
     map_of (modeMap (channels s' 1)) ''alice'' = None \<and>
     map_of (ch_clientMap (channels s' 1)) ''carol'' = Some 2"
proof -
  have k: "key (clients exampleServer 0) = ''alice''" "ToLower ''Alice2'' = ''alice2''"
    by (simp_all add: ex_defs)
  have h1: "ToLower ''Alice2'' \<noteq> key (clients exampleServer 0)"
    by (simp add: ex_defs)
  have h2: "distinct (map snd (c_channelMap (clients exampleServer 0)))"
    by (simp add: ex_defs)
  have h3: "map_of (clientMap exampleServer) (ToLower ''Alice2'') = None"
    by (simp add: ex_defs)
  have h4: "\<forall>T. map_of (clientMap exampleServer) (key (clients exampleServer 0)) = Some T \<longrightarrow> T = 0"
    by (simp add: ex_defs)
  have h5: "\<forall>ch \<in> set (map snd (c_channelMap (clients exampleServer 0))).
           map_of (ch_clientMap (channels exampleServer ch)) (key (clients exampleServer 0)) = Some 0 \<and>
           map_of (ch_clientMap (channels exampleServer ch)) (ToLower ''Alice2'') = None \<and>
           map_of (modeMap (channels exampleServer ch)) (key (clients exampleServer 0)) \<noteq> None"
    by (simp add: ex_defs)
  have m: "1 \<in> set (map snd (c_channelMap (clients exampleServer 0)))"
    "map_of (modeMap (channels exampleServer 1)) ''alice'' = Some (Some \<lparr>operator = False, voice = True\<rparr>)"
    "map_of (ch_clientMap (channels exampleServer 1)) ''carol'' = Some 2"
    by (simp_all add: ex_defs)
  from C2_setNick_rekeys[OF h1 h2 h3 h4 h5] obtain s' where s': "setNick 0 ''Alice2'' exampleServer = Inr s'"
    and a: "map_of (clientMap s') (ToLower ''Alice2'') = Some 0"
           "map_of (clientMap s') (key (clients exampleServer 0)) = None"
    and b: "\<forall>ch \<in> set (map snd (c_channelMap (clients exampleServer 0))).
              map_of (ch_clientMap (channels s' ch)) (ToLower ''Alice2'') = Some 0 \<and>
              map_of (ch_clientMap (channels s' ch)) (key (clients exampleServer 0)) = None \<and>
              map_of (modeMap (channels s' ch)) (ToLower ''Alice2'') =
                map_of (modeMap (channels exampleServer ch)) (key (clients exampleServer 0)) \<and>
              map_of (modeMap (channels s' ch)) (key (clients exampleServer 0)) = None \<and>
              (\<forall>k T. T \<noteq> 0 \<longrightarrow> (map_of (ch_clientMap (channels s' ch)) k = Some T) =
                                   (map_of (ch_clientMap (channels exampleServer ch)) k = Some T)) \<and>
              (\<forall>k. k \<noteq> ToLower ''Alice2'' \<and> k \<noteq> key (clients exampleServer 0) \<longrightarrow>
                   map_of (modeMap (channels s' ch)) k = map_of (modeMap (channels exampleServer ch)) k)"
    by blast
  from b m(1) have b1: "map_of (ch_clientMap (channels s' 1)) (ToLower ''Alice2'') = Some 0"
              "map_of (ch_clientMap (channels s' 1)) (key (clients exampleServer 0)) = None"
              "map_of (modeMap (channels s' 1)) (ToLower ''Alice2'') =
                map_of (modeMap (channels exampleServer 1)) (key (clients exampleServer 0))"
              "map_of (modeMap (channels s' 1)) (key (clients exampleServer 0)) = None"
              "(map_of (ch_clientMap (channels s' 1)) ''carol'' = Some 2) =
                                   (map_of (ch_clientMap (channels exampleServer 1)) ''carol'' = Some 2)"
    by (blast, blast, blast, blast, fastforce)
  show ?thesis
    using s' a b1 m(2,3) unfolding k by auto
qed

end
